theory Spec2Isabelle
  imports Complex_Main
begin

section \<open>Numbers, vectors and boxes\<close>

text \<open>
  The game computes with JavaScript numbers. The embedding reads them as exact reals:
  rounding, overflow and NaN inputs are outside the model. The one way exact arithmetic
  leaves the finite numbers is a division by zero, and the solver below writes that
  case out.

  \<open>Vector3\<close> and \<open>Box3\<close> are the three.js classes the sources use; only the
  operations the physics code calls are modelled, each as three.js defines it.
\<close>

record Vector3 =
  cx :: real
  cy :: real
  cz :: real

definition vec :: "real \<Rightarrow> real \<Rightarrow> real \<Rightarrow> Vector3" where
  "vec a b c = \<lparr>cx = a, cy = b, cz = c\<rparr>"

definition sub :: "Vector3 \<Rightarrow> Vector3 \<Rightarrow> Vector3" where
  "sub a b = vec (cx a - cx b) (cy a - cy b) (cz a - cz b)"

definition multiplyScalar :: "Vector3 \<Rightarrow> real \<Rightarrow> Vector3" where
  "multiplyScalar a s = vec (cx a * s) (cy a * s) (cz a * s)"

definition addScaledVector :: "Vector3 \<Rightarrow> Vector3 \<Rightarrow> real \<Rightarrow> Vector3" where
  "addScaledVector a v s = vec (cx a + cx v * s) (cy a + cy v * s) (cz a + cz v * s)"

definition dot :: "Vector3 \<Rightarrow> Vector3 \<Rightarrow> real" where
  "dot a b = cx a * cx b + cy a * cy b + cz a * cz b"

definition lengthSq :: "Vector3 \<Rightarrow> real" where
  "lengthSq a = cx a * cx a + cy a * cy a + cz a * cz a"

definition length3 :: "Vector3 \<Rightarrow> real" where
  "length3 a = sqrt (lengthSq a)"

text \<open>
  three.js: \<^verbatim>\<open>normalize() { return this.divideScalar(this.length() || 1); }\<close> and
  \<^verbatim>\<open>divideScalar(s) { return this.multiplyScalar(1 / s); }\<close>, so the zero vector
  stays the zero vector.
\<close>

definition normalize3 :: "Vector3 \<Rightarrow> Vector3" where
  "normalize3 a = multiplyScalar a (1 / (if length3 a = 0 then 1 else length3 a))"

record Box3 =
  bmin :: Vector3
  bmax :: Vector3

text \<open>
  three.js \<^verbatim>\<open>Box3.intersectsBox\<close>: the closed boxes share a point (touching boxes
  intersect). \<^verbatim>\<open>Box3.getCenter\<close> is the midpoint, and the origin for an empty box.
\<close>

definition intersectsBox :: "Box3 \<Rightarrow> Box3 \<Rightarrow> bool" where
  "intersectsBox a b \<longleftrightarrow>
     cx (bmax b) \<ge> cx (bmin a) \<and> cx (bmin b) \<le> cx (bmax a) \<and>
     cy (bmax b) \<ge> cy (bmin a) \<and> cy (bmin b) \<le> cy (bmax a) \<and>
     cz (bmax b) \<ge> cz (bmin a) \<and> cz (bmin b) \<le> cz (bmax a)"

definition isEmpty :: "Box3 \<Rightarrow> bool" where
  "isEmpty b \<longleftrightarrow>
     cx (bmax b) < cx (bmin b) \<or> cy (bmax b) < cy (bmin b) \<or> cz (bmax b) < cz (bmin b)"

definition getCenter :: "Box3 \<Rightarrow> Vector3" where
  "getCenter b =
     (if isEmpty b then vec 0 0 0
      else multiplyScalar (vec (cx (bmin b) + cx (bmax b)) (cy (bmin b) + cy (bmax b))
                               (cz (bmin b) + cz (bmax b))) (1 / 2))"

text \<open>
  The three overlaps both resolvers compute:
  \<^verbatim>\<open>Math.min(a.max.x, b.max.x) - Math.max(a.min.x, b.min.x)\<close> and likewise for y, z.
\<close>

definition overlapX :: "Box3 \<Rightarrow> Box3 \<Rightarrow> real" where
  "overlapX a b = min (cx (bmax a)) (cx (bmax b)) - max (cx (bmin a)) (cx (bmin b))"

definition overlapY :: "Box3 \<Rightarrow> Box3 \<Rightarrow> real" where
  "overlapY a b = min (cy (bmax a)) (cy (bmax b)) - max (cy (bmin a)) (cy (bmin b))"

definition overlapZ :: "Box3 \<Rightarrow> Box3 \<Rightarrow> real" where
  "overlapZ a b = min (cz (bmax a)) (cz (bmax b)) - max (cz (bmin a)) (cz (bmin b))"

text \<open>The axis tags \<^verbatim>\<open>'x'\<close>, \<^verbatim>\<open>'y'\<close>, \<^verbatim>\<open>'z'\<close> of the two resolvers.\<close>

datatype axis = AxisX | AxisY | AxisZ

text \<open>
  A collidable is a mesh; the physics code reads only its world-space bounding box
  (\<^verbatim>\<open>boundingBox\<close> under \<^verbatim>\<open>matrixWorld\<close>), so the collider set is a list of boxes
  in the order the level pushed them.
\<close>

type_synonym collidables = "Box3 list"

text \<open>
  Reading and writing a vector along one axis, and the overlap along one axis, for
  statements that hold for any axis.
\<close>

definition coord :: "axis \<Rightarrow> Vector3 \<Rightarrow> real" where
  "coord ax v = (case ax of AxisX \<Rightarrow> cx v | AxisY \<Rightarrow> cy v | AxisZ \<Rightarrow> cz v)"

definition setCoord :: "axis \<Rightarrow> Vector3 \<Rightarrow> real \<Rightarrow> Vector3" where
  "setCoord ax v a =
     (case ax of AxisX \<Rightarrow> v\<lparr>cx := a\<rparr> | AxisY \<Rightarrow> v\<lparr>cy := a\<rparr> | AxisZ \<Rightarrow> v\<lparr>cz := a\<rparr>)"

definition overlapOn :: "axis \<Rightarrow> Box3 \<Rightarrow> Box3 \<Rightarrow> real" where
  "overlapOn ax a b =
     (case ax of AxisX \<Rightarrow> overlapX a b | AxisY \<Rightarrow> overlapY a b | AxisZ \<Rightarrow> overlapZ a b)"


section \<open>The level\<close>

text \<open>
  World-space boxes of three of the collidables \<^verbatim>\<open>World.init\<close> builds, used as
  concrete colliders: the floor (a 20 x 1 x 34 box centred at height -0.5), the right
  side wall (1 x 5 x 34, centred at (10.5, 2, 0)) and the first bar of the near hoop's rim
  (0.05 x 0.05 x 0.6, centred at (-0.3, 2.8, 14.55)).
\<close>

definition floorBox :: Box3 where
  "floorBox = \<lparr>bmin = vec (- 10) (- 1) (- 17), bmax = vec 10 0 17\<rparr>"

definition rightWall :: Box3 where
  "rightWall = \<lparr>bmin = vec 10 (- 1 / 2) (- 17), bmax = vec 11 (9 / 2) 17\<rparr>"



section \<open>The ball\<close>

text \<open>The two actors that can hold the ball (\<^verbatim>\<open>owner\<close> is \<^verbatim>\<open>null\<close> or one of them).\<close>

datatype entity = ThePlayer | TheBot

text \<open>
  The physics state of \<^verbatim>\<open>Ball\<close>: \<open>position\<close> is \<^verbatim>\<open>mesh.position\<close>, \<open>visible\<close> is
  \<^verbatim>\<open>mesh.visible\<close>. The trail buffer is drawn, never read by the physics, and is left
  out.
\<close>

record Ball =
  radius :: real
  active :: bool
  owner :: "entity option"
  velocity :: Vector3
  gravity :: real
  restitution :: real
  friction :: real
  position :: Vector3
  visible :: bool

text \<open>The ball as the constructor leaves it.\<close>

definition newBall :: Ball where
  "newBall = \<lparr>radius = 15 / 100, active = True, owner = None, velocity = vec 0 0 0,
              gravity = 20, restitution = 8 / 10, friction = 2, position = vec 0 5 0,
              visible = True\<rparr>"

definition grab :: "entity \<Rightarrow> Ball \<Rightarrow> Ball" where
  "grab e b = b\<lparr>owner := Some e, velocity := vec 0 0 0\<rparr>"

definition release :: "Vector3 \<Rightarrow> Ball \<Rightarrow> Ball" where
  "release v b = (if owner b = None then b else b\<lparr>velocity := v, owner := None\<rparr>)"

definition reset :: "Ball \<Rightarrow> Ball" where
  "reset b = b\<lparr>position := vec 0 5 0, velocity := vec 0 0 0, owner := None,
               active := True, visible := True\<rparr>"


subsection \<open>One sub-step\<close>

text \<open>
  The choice of the contact axis in \<^verbatim>\<open>Ball.step\<close>: start from y, move to x and then
  to z only on a strictly smaller overlap.
\<close>

definition leastAxis :: "real \<Rightarrow> real \<Rightarrow> real \<Rightarrow> axis \<times> real" where
  "leastAxis oX oY oZ =
     (let (axis, minOverlap) = (AxisY, oY);
          (axis, minOverlap) = (if oX < minOverlap then (AxisX, oX) else (axis, minOverlap));
          (axis, minOverlap) = (if oZ < minOverlap then (AxisZ, oZ) else (axis, minOverlap))
      in (axis, minOverlap))"

text \<open>
  The body of the loop over the collidables in \<^verbatim>\<open>Ball.step\<close>, for one collider. The
  loop carries \<^verbatim>\<open>potentialPos\<close> and \<^verbatim>\<open>this.velocity\<close>; \<^verbatim>\<open>this.ballBox\<close> is
  set before the loop and not touched in it (the flag \<^verbatim>\<open>collided\<close> is written and
  never read). \<^verbatim>\<open>Math.sign\<close> is \<open>sgn\<close>.

  \<^verbatim>\<open>const reflection = normal.multiplyScalar(2 * dot)\<close> scales \<^verbatim>\<open>normal\<close> itself
  (three.js vectors are updated in place and returned), so the friction test
  \<^verbatim>\<open>Math.abs(normal.y) > 0.5\<close> that follows reads the scaled vector.
\<close>

definition bounce ::
  "Box3 \<Rightarrow> real \<Rightarrow> real \<Rightarrow> real \<Rightarrow> Box3 \<Rightarrow> Vector3 \<times> Vector3 \<Rightarrow> Vector3 \<times> Vector3" where
  "bounce ballBox rest fric dt colliderBox pv =
     (let (potentialPos, vel) = pv in
      if intersectsBox ballBox colliderBox then
        let oX = overlapX ballBox colliderBox;
            oY = overlapY ballBox colliderBox;
            oZ = overlapZ ballBox colliderBox;
            axis = fst (leastAxis oX oY oZ);
            boxCenter = getCenter colliderBox;
            (normal, potentialPos) =
              (case axis of
                 AxisX \<Rightarrow>
                   let sign = sgn (cx potentialPos - cx boxCenter)
                   in (vec sign 0 0, potentialPos\<lparr>cx := cx potentialPos + oX * sign\<rparr>)
               | AxisY \<Rightarrow>
                   let sign = sgn (cy potentialPos - cy boxCenter)
                   in (vec 0 sign 0, potentialPos\<lparr>cy := cy potentialPos + oY * sign\<rparr>)
               | AxisZ \<Rightarrow>
                   let sign = sgn (cz potentialPos - cz boxCenter)
                   in (vec 0 0 sign, potentialPos\<lparr>cz := cz potentialPos + oZ * sign\<rparr>));
            d = dot vel normal
        in if d < 0 then
             let normal = multiplyScalar normal (2 * d);
                 vel = multiplyScalar (sub vel normal) rest;
                 vel = (if \<bar>cy normal\<bar> > 1 / 2
                        then vel\<lparr>cx := cx vel - cx vel * fric * dt,
                                 cz := cz vel - cz vel * fric * dt\<rparr>
                        else vel)
             in (potentialPos, vel)
           else (potentialPos, vel)
      else (potentialPos, vel))"

text \<open>
  \<^verbatim>\<open>Ball.step\<close>. The source fixes two local constants, \<^verbatim>\<open>gravity = 15.0\<close> and
  \<^verbatim>\<open>drag = 0.5\<close>; \<open>stepWith\<close> takes them as arguments so that the same code can be
  run with the drag switched off, and \<open>step\<close> is the source's instance.
\<close>

definition ballBoxAt :: "Vector3 \<Rightarrow> real \<Rightarrow> Box3" where
  "ballBoxAt p r = \<lparr>bmin = vec (cx p - r) (cy p - r) (cz p - r),
                    bmax = vec (cx p + r) (cy p + r) (cz p + r)\<rparr>"

definition stepWith :: "real \<Rightarrow> real \<Rightarrow> real \<Rightarrow> collidables \<Rightarrow> Ball \<Rightarrow> Ball" where
  "stepWith grav drag dt cs b =
     (let v = velocity b;
          v = v\<lparr>cy := cy v - grav * dt\<rparr>;
          v = v\<lparr>cx := cx v - cx v * drag * dt\<rparr>;
          v = v\<lparr>cz := cz v - cz v * drag * dt\<rparr>;
          potentialPos = addScaledVector (position b) v dt;
          ballBox = ballBoxAt potentialPos (radius b);
          (potentialPos, v) =
            fold (bounce ballBox (restitution b) (friction b) dt) cs (potentialPos, v)
      in b\<lparr>velocity := v, position := potentialPos\<rparr>)"

definition step :: "real \<Rightarrow> collidables \<Rightarrow> Ball \<Rightarrow> Ball" where
  "step = stepWith 15 (1 / 2)"

subsection \<open>The frame update\<close>

definition subStepSize :: real where
  "subStepSize = 1 / 100"

text \<open>
  The \<^verbatim>\<open>while (remainingTime > 0)\<close> loop of \<^verbatim>\<open>Ball.update\<close>, and beside it the
  sequence of sub-step sizes \<^verbatim>\<open>dt\<close> the loop goes through, one entry per iteration.
\<close>

function substep_loop :: "real \<Rightarrow> collidables \<Rightarrow> Ball \<Rightarrow> Ball" where
  "substep_loop remainingTime cs b =
     (if remainingTime > 0
      then substep_loop (remainingTime - min remainingTime subStepSize) cs
             (step (min remainingTime subStepSize) cs b)
      else b)"
  by pat_completeness auto
termination
proof (relation "measure (\<lambda>(r, cs, b). nat \<lceil>r * 100\<rceil>)")
  show "wf (measure (\<lambda>(r, cs, b). nat \<lceil>r * 100\<rceil>))" by simp
next
  fix remainingTime :: real and cs :: collidables and b :: Ball
  assume pos: "0 < remainingTime"
  have "\<lceil>(remainingTime - min remainingTime (1 / 100)) * 100\<rceil> < \<lceil>remainingTime * 100\<rceil>"
  proof (cases "remainingTime \<le> 1 / 100")
    case True
    then show ?thesis using pos by (simp add: min_def)
  next
    case False
    then have "(remainingTime - min remainingTime (1 / 100)) * 100 = remainingTime * 100 - 1"
      by (simp add: min_def algebra_simps)
    then show ?thesis by simp
  qed
  moreover have "0 < \<lceil>remainingTime * 100\<rceil>" using pos by simp
  ultimately show "((remainingTime - min remainingTime subStepSize, cs,
                     step (min remainingTime subStepSize) cs b), remainingTime, cs, b)
                   \<in> measure (\<lambda>(r, cs, b). nat \<lceil>r * 100\<rceil>)"
    by (simp add: subStepSize_def)
qed

function substeps :: "real \<Rightarrow> real list" where
  "substeps remainingTime =
     (if remainingTime > 0
      then min remainingTime subStepSize
           # substeps (remainingTime - min remainingTime subStepSize)
      else [])"
  by pat_completeness auto
termination
proof (relation "measure (\<lambda>r. nat \<lceil>r * 100\<rceil>)")
  show "wf (measure (\<lambda>r. nat \<lceil>r * 100\<rceil>))" by simp
next
  fix remainingTime :: real
  assume pos: "0 < remainingTime"
  have "\<lceil>(remainingTime - min remainingTime (1 / 100)) * 100\<rceil> < \<lceil>remainingTime * 100\<rceil>"
  proof (cases "remainingTime \<le> 1 / 100")
    case True
    then show ?thesis using pos by (simp add: min_def)
  next
    case False
    then have "(remainingTime - min remainingTime (1 / 100)) * 100 = remainingTime * 100 - 1"
      by (simp add: min_def algebra_simps)
    then show ?thesis by simp
  qed
  moreover have "0 < \<lceil>remainingTime * 100\<rceil>" using pos by simp
  ultimately show "(remainingTime - min remainingTime subStepSize, remainingTime)
                   \<in> measure (\<lambda>r. nat \<lceil>r * 100\<rceil>)"
    by (simp add: subStepSize_def)
qed

declare substep_loop.simps [simp del]
declare substeps.simps [simp del]

definition floorSafety :: "Ball \<Rightarrow> Ball" where
  "floorSafety b = (if cy (position b) < - 10 then reset b else b)"

text \<open>
  \<^verbatim>\<open>Ball.update\<close>. A held ball is left to its owner; a free one runs the sub-steps
  and then the floor safety.
\<close>

definition update :: "real \<Rightarrow> collidables \<Rightarrow> Ball \<Rightarrow> Ball" where
  "update delta cs b =
     (if owner b \<noteq> None then b else floorSafety (substep_loop delta cs b))"


section \<open>The bot's ballistic solver\<close>

text \<open>
  \<^verbatim>\<open>Bot.calculateShotVelocity\<close> returns \<^verbatim>\<open>null\<close> or a velocity vector. Exact
  arithmetic has no value for a quotient by zero, where JavaScript yields an infinity or
  NaN that then spreads through the vector: the model answers \<open>NotFinite\<close> there. That
  is the case for \<^verbatim>\<open>Math.tan(angle)\<close> when the cosine of the angle is zero, and for
  \<^verbatim>\<open>term1 / (term2 * term3)\<close> when the product is zero. (The cosine is zero only
  for exact odd multiples of 90 degrees; the cosine of a double is never exactly zero, so
  this is a case of the reals, not of the program.)
\<close>

datatype shot = NoSolution | NotFinite | Velocity Vector3

definition calculateShotVelocity :: "Vector3 \<Rightarrow> Vector3 \<Rightarrow> real \<Rightarrow> shot" where
  "calculateShotVelocity startPos targetPos angleDeg =
     (let g = 15;
          diff = sub targetPos startPos;
          y = cy diff;
          diffXZ = vec (cx diff) 0 (cz diff);
          x = length3 diffXZ;
          angle = angleDeg * (pi / 180)
      in if cos angle = 0 then NotFinite
         else
           let term1 = g * x * x;
               term2 = 2 * (cos angle) ^ 2;
               term3 = x * tan angle - y
           in if term3 \<le> 0 then NoSolution
              else if term2 * term3 = 0 then NotFinite
              else
                let vSquared = term1 / (term2 * term3);
                    v = sqrt vSquared;
                    vH = v * cos angle;
                    vY = v * sin angle;
                    velocity = multiplyScalar (normalize3 diffXZ) vH
                in Velocity (velocity\<lparr>cy := vY\<rparr>))"


section \<open>Flight under the stepper's gravity alone\<close>







section \<open>The player\<close>

text \<open>
  The kinematic state of \<^verbatim>\<open>Player\<close> and the input flags its key handlers set.
  \<open>camera_position\<close> is \<^verbatim>\<open>camera.position\<close>; \<open>camera_forward\<close> and
  \<open>camera_right\<close> are the vectors \<^verbatim>\<open>(0, 0, -1)\<close> and \<^verbatim>\<open>(1, 0, 0)\<close> turned by
  \<^verbatim>\<open>camera.quaternion\<close>, which is all \<^verbatim>\<open>update\<close> reads of the orientation.
  The fields \<open>pvelocity\<close> and \<open>pgravity\<close> are the player's \<^verbatim>\<open>velocity\<close> and
  \<^verbatim>\<open>gravity\<close>.
\<close>

record Player =
  camera_position :: Vector3
  camera_forward :: Vector3
  camera_right :: Vector3
  pvelocity :: Vector3
  pgravity :: real
  onGround :: bool
  height :: real
  width :: real
  speed :: real
  sprintMultiplier :: real
  stamina :: real
  maxStamina :: real
  staminaDrainRate :: real
  staminaRegenRate :: real
  moveForward :: bool
  moveBackward :: bool
  moveLeft :: bool
  moveRight :: bool
  isRunning :: bool

text \<open>The player as the constructors of \<^verbatim>\<open>Game\<close> and \<^verbatim>\<open>Player\<close> leave it.\<close>

definition newPlayer :: Player where
  "newPlayer = \<lparr>camera_position = vec 0 2 5, camera_forward = vec 0 0 (- 1),
                camera_right = vec 1 0 0, pvelocity = vec 0 0 0, pgravity = 30,
                onGround = False, height = 16 / 10, width = 6 / 10, speed = 6,
                sprintMultiplier = 17 / 10, stamina = 60, maxStamina = 60,
                staminaDrainRate = 30, staminaRegenRate = 15, moveForward = False,
                moveBackward = False, moveLeft = False, moveRight = False,
                isRunning = False\<rparr>"

subsection \<open>Hard-stop collision resolution\<close>

definition playerBoxAt :: "Player \<Rightarrow> Box3" where
  "playerBoxAt p =
     (let pos = camera_position p; w = width p / 2; h = height p
      in \<lparr>bmin = vec (cx pos - w) (cy pos - h) (cz pos - w),
          bmax = vec (cx pos + w) (cy pos) (cz pos + w)\<rparr>)"

text \<open>
  The body of the loop of \<^verbatim>\<open>Player.resolveCollisions\<close>, for one collider. The loop
  carries the player and \<^verbatim>\<open>this.playerBox\<close>, which is set again only after a
  collider that was neither missed nor skipped.
\<close>

definition hardStop :: "axis \<Rightarrow> Box3 \<Rightarrow> Player \<times> Box3 \<Rightarrow> Player \<times> Box3" where
  "hardStop ax elementBox s =
     (let (p, playerBox) = s in
      if intersectsBox playerBox elementBox then
        let oX = overlapX playerBox elementBox;
            oY = overlapY playerBox elementBox;
            oZ = overlapZ playerBox elementBox
        in if \<bar>oX\<bar> < 1 / 1000 \<or> \<bar>oY\<bar> < 1 / 1000 \<or> \<bar>oZ\<bar> < 1 / 1000 then (p, playerBox)
           else
             let pos = camera_position p;
                 vel = pvelocity p;
                 p =
                   (case ax of
                      AxisX \<Rightarrow>
                        if oX > 0 then
                          let dir = cx pos - cx (getCenter elementBox);
                              sign = (if cx vel \<noteq> 0 then - sgn (cx vel) else sgn dir)
                          in p\<lparr>camera_position := pos\<lparr>cx := cx pos + oX * sign\<rparr>,
                               pvelocity := vel\<lparr>cx := 0\<rparr>\<rparr>
                        else p
                    | AxisZ \<Rightarrow>
                        if oZ > 0 then
                          let dir = cz pos - cz (getCenter elementBox);
                              sign = (if cz vel \<noteq> 0 then - sgn (cz vel) else sgn dir)
                          in p\<lparr>camera_position := pos\<lparr>cz := cz pos + oZ * sign\<rparr>,
                               pvelocity := vel\<lparr>cz := 0\<rparr>\<rparr>
                        else p
                    | AxisY \<Rightarrow>
                        if oY > 0 then
                          if cy vel < 0 then
                            p\<lparr>camera_position := pos\<lparr>cy := cy pos + oY\<rparr>,
                              onGround := True, pvelocity := vel\<lparr>cy := 0\<rparr>\<rparr>
                          else if cy vel > 0 then
                            p\<lparr>camera_position := pos\<lparr>cy := cy pos - oY\<rparr>,
                              pvelocity := vel\<lparr>cy := 0\<rparr>\<rparr>
                          else
                            p\<lparr>camera_position := pos\<lparr>cy := cy pos + oY\<rparr>,
                              onGround := True\<rparr>
                        else p)
             in (p, playerBoxAt p)
      else (p, playerBox))"

definition resolveCollisions :: "collidables \<Rightarrow> axis \<Rightarrow> Player \<Rightarrow> Player" where
  "resolveCollisions cs ax p = fst (fold (hardStop ax) cs (p, playerBoxAt p))"

text \<open>
  The direction in which \<open>hardStop\<close> moves the player, as its three branches compute
  it: against the velocity on x and z (away from the collider's centre when that
  velocity is zero); up on y unless the player is rising.
\<close>

definition playerPush :: "axis \<Rightarrow> Box3 \<Rightarrow> Player \<Rightarrow> real" where
  "playerPush ax c p =
     (let pos = camera_position p; vel = pvelocity p
      in case ax of
           AxisX \<Rightarrow> if cx vel \<noteq> 0 then - sgn (cx vel) else sgn (cx pos - cx (getCenter c))
         | AxisZ \<Rightarrow> if cz vel \<noteq> 0 then - sgn (cz vel) else sgn (cz pos - cz (getCenter c))
         | AxisY \<Rightarrow> if cy vel > 0 then - 1 else 1)"


subsection \<open>The frame update\<close>

text \<open>
  \<^verbatim>\<open>Player.update\<close> up to the floor safety, in the source's order and cut into its
  numbered parts. The rest of \<^verbatim>\<open>update\<close> (picking up and carrying the ball, the aim
  preview) writes none of the fields below and is not modelled.
\<close>

definition applyDamping :: "real \<Rightarrow> Player \<Rightarrow> Player" where
  "applyDamping delta p =
     (let damping = 10;
          v = pvelocity p;
          v = v\<lparr>cx := cx v - cx v * damping * delta\<rparr>;
          v = v\<lparr>cz := cz v - cz v * damping * delta\<rparr>;
          v = v\<lparr>cy := cy v - pgravity p * delta\<rparr>
      in p\<lparr>pvelocity := v\<rparr>)"

definition moving :: "Player \<Rightarrow> bool" where
  "moving p \<longleftrightarrow> moveForward p \<or> moveBackward p \<or> moveLeft p \<or> moveRight p"

text \<open>The stamina logic; the first component is \<^verbatim>\<open>usingSprint\<close>.\<close>

definition staminaStep :: "real \<Rightarrow> Player \<Rightarrow> bool \<times> Player" where
  "staminaStep delta p =
     (if isRunning p \<and> stamina p > 0 then
        if moving p then
          let s = stamina p - staminaDrainRate p * delta;
              s = (if s < 0 then 0 else s)
          in (True, p\<lparr>stamina := s\<rparr>)
        else (False, p)
      else
        let s = stamina p + staminaRegenRate p * delta;
            s = (if s > maxStamina p then maxStamina p else s)
        in (False, p\<lparr>stamina := s\<rparr>))"

definition targetSpeed :: "bool \<Rightarrow> Player \<Rightarrow> real" where
  "targetSpeed usingSprint p = speed p * (if usingSprint then sprintMultiplier p else 1)"

definition add :: "Vector3 \<Rightarrow> Vector3 \<Rightarrow> Vector3" where
  "add a b = vec (cx a + cx b) (cy a + cy b) (cz a + cz b)"

definition inputDirection :: "Player \<Rightarrow> Vector3" where
  "inputDirection p =
     (let tempDir = vec 0 0 0;
          tempVec = normalize3 ((camera_forward p)\<lparr>cy := 0\<rparr>);
          tempDir = (if moveForward p then add tempDir tempVec else tempDir);
          tempDir = (if moveBackward p then sub tempDir tempVec else tempDir);
          tempVec = normalize3 ((camera_right p)\<lparr>cy := 0\<rparr>);
          tempDir = (if moveRight p then add tempDir tempVec else tempDir);
          tempDir = (if moveLeft p then sub tempDir tempVec else tempDir)
      in tempDir)"

text \<open>
  Acceleration along the input direction and the cap on the horizontal speed. The
  quotient \<^verbatim>\<open>targetSpeed / currentHorizSpeed\<close> is taken only when
  \<^verbatim>\<open>currentHorizSpeed > targetSpeed\<close>, so its divisor is zero only for a negative
  target speed.
\<close>

definition accelerate :: "real \<Rightarrow> real \<Rightarrow> Player \<Rightarrow> Player" where
  "accelerate delta tSpeed p =
     (let acceleration = 200;
          tempDir = inputDirection p;
          v = pvelocity p;
          v = (if lengthSq tempDir > 0
               then let tempDir = normalize3 tempDir
                    in v\<lparr>cx := cx v + cx tempDir * acceleration * delta,
                         cz := cz v + cz tempDir * acceleration * delta\<rparr>
               else v);
          currentHorizSpeed = sqrt ((cx v) ^ 2 + (cz v) ^ 2);
          v = (if currentHorizSpeed > tSpeed
               then let ratio = tSpeed / currentHorizSpeed
                    in v\<lparr>cx := cx v * ratio, cz := cz v * ratio\<rparr>
               else v)
      in p\<lparr>pvelocity := v\<rparr>)"

text \<open>The three position updates \<^verbatim>\<open>camera.position.x += velocity.x * delta\<close>, z, y.\<close>

definition moveAxis :: "axis \<Rightarrow> real \<Rightarrow> Player \<Rightarrow> Player" where
  "moveAxis ax delta p =
     (let pos = camera_position p; vel = pvelocity p
      in case ax of
           AxisX \<Rightarrow> p\<lparr>camera_position := pos\<lparr>cx := cx pos + cx vel * delta\<rparr>\<rparr>
         | AxisY \<Rightarrow> p\<lparr>camera_position := pos\<lparr>cy := cy pos + cy vel * delta\<rparr>\<rparr>
         | AxisZ \<Rightarrow> p\<lparr>camera_position := pos\<lparr>cz := cz pos + cz vel * delta\<rparr>\<rparr>)"

definition fallLimit :: "Player \<Rightarrow> Player" where
  "fallLimit p =
     (if cy (camera_position p) < - 20
      then p\<lparr>camera_position := vec 0 5 5, pvelocity := vec 0 0 0\<rparr>
      else p)"

text \<open>
  Parts 1 and 2 of \<^verbatim>\<open>update\<close> (damping and gravity, stamina, input) are \<open>steer\<close>;
  part 3 follows in \<open>playerUpdate\<close>.
  \<open>locked\<close> is the test \<^verbatim>\<open>document.pointerLockElement === document.body\<close>: without
  pointer lock the frame only clears the velocity.
\<close>

definition steer :: "real \<Rightarrow> Player \<Rightarrow> Player" where
  "steer delta p =
     (let p = applyDamping delta p;
          (usingSprint, p) = staminaStep delta p
      in accelerate delta (targetSpeed usingSprint p) p)"

definition playerUpdate :: "bool \<Rightarrow> real \<Rightarrow> collidables \<Rightarrow> Player \<Rightarrow> Player" where
  "playerUpdate locked delta cs p =
     (if \<not> locked then p\<lparr>pvelocity := vec 0 0 0\<rparr>
      else
        let p = steer delta p;
            p = p\<lparr>onGround := False\<rparr>;
            p = moveAxis AxisX delta p;
            p = resolveCollisions cs AxisX p;
            p = moveAxis AxisZ delta p;
            p = resolveCollisions cs AxisZ p;
            p = moveAxis AxisY delta p;
            p = resolveCollisions cs AxisY p
        in fallLimit p)"


section \<open>Vectors as triples\<close>

text \<open>Selecting from and updating a vector, in terms of \<open>vec\<close>.\<close>


lemma vec_sel [simp]: "cx (vec a b c) = a" "cy (vec a b c) = b" "cz (vec a b c) = c"
  by (simp_all add: vec_def)

lemma vec_upd [simp]:
  "(v::Vector3)\<lparr>cx := a\<rparr> = vec a (cy v) (cz v)"
  "(v::Vector3)\<lparr>cy := a\<rparr> = vec (cx v) a (cz v)"
  "(v::Vector3)\<lparr>cz := a\<rparr> = vec (cx v) (cy v) a"
  by (cases v; simp add: vec_def)+

lemma vec_eq_iff [simp]: "vec a b c = vec a' b' c' \<longleftrightarrow> a = a' \<and> b = b' \<and> c = c'"
  by (simp add: vec_def)

lemma vec_eta: "vec (cx v) (cy v) (cz v) = (v::Vector3)"
  by (cases v) (simp add: vec_def)


section \<open>Properties of the ball's ownership operations\<close>

text \<open>
  C10. Releasing a ball that nobody holds changes nothing: position, velocity and owner
  (indeed the whole ball) stay as they were, and the velocity passed in is dropped.
\<close>

theorem release_unowned_noop:
  "owner b = None \<Longrightarrow> release v b = b"
  by (simp add: release_def)

theorem release_unowned_noop_witness:
  "owner newBall = None \<and> release (vec 0 10 0) newBall = newBall"
  using release_unowned_noop [of newBall "vec 0 10 0"] by (simp add: newBall_def)

section \<open>Sub-stepping of the ball's frame update\<close>

lemma substeps_nonpos: "r \<le> 0 \<Longrightarrow> substeps r = []"
  by (subst substeps.simps) simp

lemma substep_loop_nonpos: "r \<le> 0 \<Longrightarrow> substep_loop r cs b = b"
  by (subst substep_loop.simps) simp

lemma substep_loop_fold:
  "substep_loop r cs b = fold (\<lambda>dt. step dt cs) (substeps r) b"
proof (induction r cs b rule: substep_loop.induct)
  case (1 r cs b)
  show ?case
  proof (cases "r > 0")
    case True
    then show ?thesis
      using "1.IH" by (subst substep_loop.simps, subst substeps.simps) simp
  next
    case False
    then show ?thesis by (simp add: substeps_nonpos substep_loop_nonpos)
  qed
qed




lemma substeps_whole:
  "0 \<le> d \<Longrightarrow> substeps (real k * subStepSize + d) = replicate k subStepSize @ substeps d"
proof (induction k)
  case 0
  then show ?case by simp
next
  case (Suc k)
  let ?r = "real (Suc k) * subStepSize + d"
  have "0 \<le> real k * subStepSize" by (simp add: subStepSize_def)
  then have ge: "subStepSize \<le> ?r" using Suc.prems by (simp add: algebra_simps)
  moreover have "0 < subStepSize" by (simp add: subStepSize_def)
  ultimately have pos: "0 < ?r" by linarith
  have m: "min ?r subStepSize = subStepSize" using ge by (simp add: min_def)
  have "substeps ?r = subStepSize # substeps (?r - subStepSize)"
    using pos m by (subst substeps.simps) simp
  also have "?r - subStepSize = real k * subStepSize + d" by (simp add: algebra_simps)
  finally show ?case using Suc by simp
qed

lemma owner_step: "owner (step dt cs b) = owner b"
  by (simp add: step_def stepWith_def Let_def split: prod.splits)

lemma owner_fold_step: "owner (fold (\<lambda>dt. step dt cs) ds b) = owner b"
  by (induction ds arbitrary: b) (simp_all add: owner_step)


lemma update_unowned:
  "owner b = None \<Longrightarrow>
   update delta cs b = floorSafety (fold (\<lambda>dt. step dt cs) (substeps delta) b)"
  by (simp add: update_def substep_loop_fold)



lemma update_two:
  assumes o: "owner b = None" and d: "0 \<le> d"
    and nofall: "\<not> cy (position (substep_loop (real k * subStepSize) cs b)) < - 10"
  shows "update d cs (update (real k * subStepSize) cs b) = update (real k * subStepSize + d) cs b"
proof -
  let ?b1 = "substep_loop (real k * subStepSize) cs b"
  have u1: "update (real k * subStepSize) cs b = ?b1"
    using o nofall by (simp add: update_def floorSafety_def)
  have whole: "substeps (real k * subStepSize) = replicate k subStepSize"
    using substeps_whole [of 0 k] by (simp add: substeps_nonpos)
  have b1: "?b1 = fold (\<lambda>dt. step dt cs) (replicate k subStepSize) b"
    by (simp add: substep_loop_fold whole)
  have o1: "owner ?b1 = None" using o by (simp add: substep_loop_fold owner_fold_step)
  have "update d cs ?b1 = floorSafety (fold (\<lambda>dt. step dt cs) (substeps d) ?b1)"
    using o1 by (rule update_unowned)
  also have "\<dots> = floorSafety (fold (\<lambda>dt. step dt cs) (replicate k subStepSize @ substeps d) b)"
    by (simp add: b1)
  also have "\<dots> = update (real k * subStepSize + d) cs b"
    using o d by (simp add: update_unowned substeps_whole)
  finally show ?thesis using u1 by simp
qed

lemma update_many:
  assumes o: "owner b = None"
    and nofall: "\<forall>j \<le> length ks.
       \<not> cy (position (substep_loop (real (sum_list (take j ks)) * subStepSize) cs b)) < - 10"
  shows "fold (\<lambda>k. update (real k * subStepSize) cs) ks b
           = substep_loop (real (sum_list ks) * subStepSize) cs b"
  using nofall
proof (induction ks rule: rev_induct)
  case Nil
  show ?case by (simp add: substep_loop_nonpos)
next
  case (snoc k ks)
  have pre: "\<forall>j \<le> length ks.
       \<not> cy (position (substep_loop (real (sum_list (take j ks)) * subStepSize) cs b)) < - 10"
  proof (intro allI impI)
    fix j assume j: "j \<le> length ks"
    then have "j \<le> length (ks @ [k])" by simp
    then have "\<not> cy (position (substep_loop
        (real (sum_list (take j (ks @ [k]))) * subStepSize) cs b)) < - 10"
      using snoc.prems by blast
    then show "\<not> cy (position (substep_loop (real (sum_list (take j ks)) * subStepSize) cs b))
                 < - 10"
      using j by simp
  qed
  have mid: "\<not> cy (position (substep_loop (real (sum_list ks) * subStepSize) cs b)) < - 10"
    using pre by (elim allE [of _ "length ks"]) simp
  have last: "\<not> cy (position (substep_loop (real (sum_list (ks @ [k])) * subStepSize) cs b)) < - 10"
    using snoc.prems by (elim allE [of _ "length (ks @ [k])"]) simp
  have u: "update (real (sum_list ks) * subStepSize) cs b
             = substep_loop (real (sum_list ks) * subStepSize) cs b"
    using o mid by (simp add: update_def floorSafety_def)
  have "fold (\<lambda>k. update (real k * subStepSize) cs) (ks @ [k]) b
          = update (real k * subStepSize) cs (substep_loop (real (sum_list ks) * subStepSize) cs b)"
    using snoc.IH [OF pre] by simp
  also have "\<dots> = update (real (sum_list ks) * subStepSize + real k * subStepSize) cs b"
    using update_two [OF o _ mid, of "real k * subStepSize"] u by (simp add: subStepSize_def)
  also have "real (sum_list ks) * subStepSize + real k * subStepSize
               = real (sum_list (ks @ [k])) * subStepSize"
    by (simp add: algebra_simps)
  also have "update (real (sum_list (ks @ [k])) * subStepSize) cs b
               = substep_loop (real (sum_list (ks @ [k])) * subStepSize) cs b"
    using o last by (simp add: update_def floorSafety_def)
  finally show ?case .
qed

text \<open>
  C8, as amended. A run of calls whose deltas are whole numbers of 0.01 s sub-steps
  (\<open>ks\<close> gives the number of sub-steps of each call), followed or not by one more call
  with any delta that is not negative, leaves the ball as one call with the total delta
  does, provided the ball is not below the floor limit at the end of any of the calls
  of the run (where that call would reset it).
\<close>

theorem update_chunking:
  "owner b = None \<Longrightarrow> 0 \<le> d \<Longrightarrow>
   \<forall>j \<le> length ks.
     \<not> cy (position (substep_loop (real (sum_list (take j ks)) * subStepSize) cs b)) < - 10 \<Longrightarrow>
   fold (\<lambda>k. update (real k * subStepSize) cs) ks b = update (real (sum_list ks) * subStepSize) cs b
   \<and> update d cs (fold (\<lambda>k. update (real k * subStepSize) cs) ks b)
       = update (real (sum_list ks) * subStepSize + d) cs b"
proof -
  assume o: "owner b = None" and d: "0 \<le> d"
    and nofall: "\<forall>j \<le> length ks.
       \<not> cy (position (substep_loop (real (sum_list (take j ks)) * subStepSize) cs b)) < - 10"
  have all: "\<not> cy (position (substep_loop (real (sum_list ks) * subStepSize) cs b)) < - 10"
    using nofall by (elim allE [of _ "length ks"]) simp
  have many: "fold (\<lambda>k. update (real k * subStepSize) cs) ks b
          = update (real (sum_list ks) * subStepSize) cs b"
    using update_many [OF o nofall] o all by (simp add: update_def floorSafety_def)
  then show ?thesis using update_two [OF o d all] by simp
qed

lemma substeps_single: "0 < r \<Longrightarrow> r \<le> subStepSize \<Longrightarrow> substeps r = [r]"
  by (subst substeps.simps) (simp add: min_def substeps_nonpos)

lemma step_free_fall:
  "step dt [] b = b\<lparr>velocity := vec (cx (velocity b) - cx (velocity b) * (1 / 2) * dt)
                                   (cy (velocity b) - 15 * dt)
                                   (cz (velocity b) - cz (velocity b) * (1 / 2) * dt),
                    position := addScaledVector (position b)
                                  (vec (cx (velocity b) - cx (velocity b) * (1 / 2) * dt)
                                       (cy (velocity b) - 15 * dt)
                                       (cz (velocity b) - cz (velocity b) * (1 / 2) * dt)) dt\<rparr>"
  by (simp add: step_def stepWith_def Let_def)

lemma update_newBall_one:
  "update (1 / 100) [] newBall =
     newBall\<lparr>velocity := vec 0 (- 3 / 20) 0, position := vec 0 (5 - 3 / 2000) 0\<rparr>"
proof -
  have "substeps (1 / 100) = [1 / 100]" by (rule substeps_single) (simp_all add: subStepSize_def)
  then show ?thesis
    by (simp add: update_def substep_loop_fold step_free_fall floorSafety_def newBall_def
        addScaledVector_def)
qed

lemma newBall_fall:
  "velocity ((step subStepSize [] ^^ m) newBall) = vec 0 (- 3 * real m / 20) 0
   \<and> position ((step subStepSize [] ^^ m) newBall)
       = vec 0 (5 - 3 * (real m * (real m + 1)) / 4000) 0"
proof (induction m)
  case 0
  show ?case by (simp add: newBall_def)
next
  case (Suc m)
  define b where "b = (step subStepSize [] ^^ m) newBall"
  have v: "velocity b = vec 0 (- 3 * real m / 20) 0"
    and p: "position b = vec 0 (5 - 3 * (real m * (real m + 1)) / 4000) 0"
    using Suc.IH by (simp_all add: b_def)
  have "velocity (step (1 / 100) [] b) = vec 0 (- 3 * real (Suc m) / 20) 0"
    by (simp add: step_free_fall v field_simps)
  moreover have "position (step (1 / 100) [] b)
                   = vec 0 (5 - 3 * (real (Suc m) * (real (Suc m) + 1)) / 4000) 0"
    by (simp add: step_free_fall v p addScaledVector_def field_simps)
  ultimately show ?case by (simp add: b_def subStepSize_def)
qed

lemma newBall_fall_height:
  assumes "m \<le> 5"
  shows "\<not> cy (position (substep_loop (real m * subStepSize) [] newBall)) < - 10"
proof -
  have whole: "substeps (real m * subStepSize) = replicate m subStepSize"
    using substeps_whole [of 0 m] by (simp add: substeps_nonpos)
  have "real m * (real m + 1) \<le> 5 * (5 + 1)"
    using assms by (intro mult_mono) simp_all
  then show ?thesis
    by (simp add: substep_loop_fold whole newBall_fall)
qed

lemma sum_list_take_le: "sum_list (take j ks) \<le> sum_list (ks :: nat list)"
proof -
  have "sum_list (take j ks) + sum_list (drop j ks) = sum_list ks"
    by (simp add: sum_list_append [symmetric])
  then show ?thesis by linarith
qed

theorem update_chunking_witness:
  "owner newBall = None
   \<and> fold (\<lambda>k. update (real k * subStepSize) []) [1, 1, 1, 1, 1] newBall
       = update (5 / 100) [] newBall
   \<and> update (1 / 200) [] (fold (\<lambda>k. update (real k * subStepSize) []) [1, 1, 1, 1, 1] newBall)
       = update (11 / 200) [] newBall"
proof -
  have o: "owner newBall = None" by (simp add: newBall_def)
  have nofall: "\<forall>j \<le> length [1, 1, 1, 1, 1 :: nat].
       \<not> cy (position (substep_loop
             (real (sum_list (take j [1, 1, 1, 1, 1])) * subStepSize) [] newBall)) < - 10"
  proof (intro allI impI)
    fix j :: nat
    have "sum_list (take j [1, 1, 1, 1, 1 :: nat]) \<le> sum_list [1, 1, 1, 1, 1 :: nat]"
      by (rule sum_list_take_le)
    then have "sum_list (take j [1, 1, 1, 1, 1 :: nat]) \<le> 5" by simp
    then show "\<not> cy (position (substep_loop
             (real (sum_list (take j [1, 1, 1, 1, 1])) * subStepSize) [] newBall)) < - 10"
      by (rule newBall_fall_height)
  qed
  have r: "fold (\<lambda>k. update (real k * subStepSize) []) [1, 1, 1, 1, 1] newBall
          = update (real (sum_list [1, 1, 1, 1, 1]) * subStepSize) [] newBall
        \<and> update (1 / 200) [] (fold (\<lambda>k. update (real k * subStepSize) []) [1, 1, 1, 1, 1] newBall)
          = update (real (sum_list [1, 1, 1, 1, 1]) * subStepSize + 1 / 200) [] newBall"
    by (rule update_chunking [OF o _ nofall]) simp
  have e1: "real (sum_list [1, 1, 1, 1, 1]) * subStepSize = 5 / 100"
    and e2: "(5 / 100 + 1 / 200 :: real) = 11 / 200"
    by (simp_all add: subStepSize_def)
  show ?thesis using o r [unfolded e1 e2] by blast
qed

text \<open>
  C8 as stated fails: from the spawn state with no colliders, two calls of 0.005 s and
  one call of 0.01 s cover the same time and leave the ball at different heights.
\<close>

theorem update_chunking_counterexample:
  "position (update (1 / 200) [] (update (1 / 200) [] newBall)) = vec 0 (5 - 9 / 8000) 0
   \<and> position (update (1 / 100) [] newBall) = vec 0 (5 - 3 / 2000) 0
   \<and> position (update (1 / 200) [] (update (1 / 200) [] newBall))
       \<noteq> position (update (1 / 100) [] newBall)"
proof -
  have s: "substeps (1 / 200) = [1 / 200]"
    by (rule substeps_single) (simp_all add: subStepSize_def)
  have one: "update (1 / 200) [] newBall =
      newBall\<lparr>velocity := vec 0 (- 3 / 40) 0, position := vec 0 (5 - 3 / 8000) 0\<rparr>"
    using s by (simp add: update_def substep_loop_fold step_free_fall floorSafety_def newBall_def
        addScaledVector_def)
  have two: "position (update (1 / 200) [] (update (1 / 200) [] newBall)) = vec 0 (5 - 9 / 8000) 0"
    unfolding one using s
    by (simp add: update_def substep_loop_fold step_free_fall floorSafety_def newBall_def
        addScaledVector_def)
  show ?thesis using two by (simp add: update_newBall_one)
qed


section \<open>The ballistic solver\<close>

lemma length3_XZ: "length3 (vec a 0 c) = sqrt (a\<^sup>2 + c\<^sup>2)"
  by (simp add: length3_def lengthSq_def power2_eq_square)

lemma normalize3_XZ_pos:
  "0 < sqrt (a\<^sup>2 + c\<^sup>2) \<Longrightarrow>
   normalize3 (vec a 0 c) = vec (a / sqrt (a\<^sup>2 + c\<^sup>2)) 0 (c / sqrt (a\<^sup>2 + c\<^sup>2))"
  by (simp add: normalize3_def length3_XZ multiplyScalar_def)

lemma normalize3_XZ_zero:
  "sqrt (a\<^sup>2 + c\<^sup>2) = 0 \<Longrightarrow> normalize3 (vec a 0 c) = vec 0 0 0"
  by (simp add: normalize3_def length3_XZ multiplyScalar_def)

lemma unit_XZ:
  "0 < sqrt (a\<^sup>2 + c\<^sup>2) \<Longrightarrow> (a / sqrt (a\<^sup>2 + c\<^sup>2))\<^sup>2 + (c / sqrt (a\<^sup>2 + c\<^sup>2))\<^sup>2 = 1"
proof -
  assume pos: "0 < sqrt (a\<^sup>2 + c\<^sup>2)"
  then have nz: "a\<^sup>2 + c\<^sup>2 \<noteq> 0" by auto
  have "(a / sqrt (a\<^sup>2 + c\<^sup>2))\<^sup>2 + (c / sqrt (a\<^sup>2 + c\<^sup>2))\<^sup>2 = (a\<^sup>2 + c\<^sup>2) / (a\<^sup>2 + c\<^sup>2)"
    by (simp add: power_divide add_divide_distrib [symmetric])
  then show ?thesis using nz by simp
qed

text \<open>The solver's three outcomes, with the intermediate values named.\<close>

lemma calculateShotVelocity_cases:
  assumes "\<theta> = angleDeg * (pi / 180)"
    and "dx = cx t - cx s" and "dz = cz t - cz s" and "y = cy t - cy s"
    and "x = sqrt (dx\<^sup>2 + dz\<^sup>2)"
    and "v = sqrt (15 * x\<^sup>2 / (2 * (cos \<theta>)\<^sup>2 * (x * tan \<theta> - y)))"
  shows "calculateShotVelocity s t angleDeg =
      (if cos \<theta> = 0 then NotFinite
       else if x * tan \<theta> - y \<le> 0 then NoSolution
       else Velocity (vec (cx (normalize3 (vec dx 0 dz)) * (v * cos \<theta>)) (v * sin \<theta>)
                          (cz (normalize3 (vec dx 0 dz)) * (v * cos \<theta>))))"
proof -
  have d: "sub t s = vec dx y dz" by (simp add: sub_def assms)
  have l: "length3 (vec dx 0 dz) = x" by (simp add: length3_XZ assms)
  have t1: "15 * x * x = 15 * x\<^sup>2" by (simp add: power2_eq_square)
  show ?thesis
    unfolding calculateShotVelocity_def Let_def d vec_sel l assms(1) [symmetric] t1
      assms(6) [symmetric]
    by (simp add: multiplyScalar_def)
qed

text \<open>
  C1. For every start \<open>s\<close>, target \<open>t\<close> and launch angle whose cosine is not zero
  (so that the tangent exists), with \<open>x\<close> the horizontal distance and \<open>y\<close> the signed
  height of the target above the start: the solver answers "no solution" exactly when
  \<open>x tan \<theta> - y \<le> 0\<close>; it never produces a non-finite vector; and otherwise the
  velocity is the horizontal unit direction scaled by \<open>v cos \<theta>\<close> with vertical
  component \<open>v sin \<theta>\<close>, where \<open>v = sqrt (g x\<^sup>2 / (2 cos\<^sup>2 \<theta> (x tan \<theta> - y)))\<close> and
  \<open>g = 15\<close>. Straight above a target (\<open>x = 0\<close>) there is no direction and \<open>v = 0\<close>:
  the velocity is the zero vector.
\<close>

theorem calculateShotVelocity_solution:
  "cos (angleDeg * (pi / 180)) \<noteq> 0 \<Longrightarrow>
   (let \<theta> = angleDeg * (pi / 180);
        dx = cx t - cx s;
        dz = cz t - cz s;
        x = sqrt (dx\<^sup>2 + dz\<^sup>2);
        y = cy t - cy s;
        v = sqrt (15 * x\<^sup>2 / (2 * (cos \<theta>)\<^sup>2 * (x * tan \<theta> - y)))
    in (calculateShotVelocity s t angleDeg = NoSolution \<longleftrightarrow> x * tan \<theta> - y \<le> 0)
     \<and> calculateShotVelocity s t angleDeg \<noteq> NotFinite
     \<and> (0 < x * tan \<theta> - y \<and> 0 < x \<longrightarrow>
          calculateShotVelocity s t angleDeg =
            Velocity (vec (dx / x * (v * cos \<theta>)) (v * sin \<theta>) (dz / x * (v * cos \<theta>)))
          \<and> (dx / x)\<^sup>2 + (dz / x)\<^sup>2 = 1)
     \<and> (0 < x * tan \<theta> - y \<and> x = 0 \<longrightarrow>
          v = 0 \<and> calculateShotVelocity s t angleDeg = Velocity (vec 0 0 0)))"
proof -
  assume c: "cos (angleDeg * (pi / 180)) \<noteq> 0"
  define \<theta> where "\<theta> = angleDeg * (pi / 180)"
  define dx where "dx = cx t - cx s"
  define dz where "dz = cz t - cz s"
  define x where "x = sqrt (dx\<^sup>2 + dz\<^sup>2)"
  define y where "y = cy t - cy s"
  define v where "v = sqrt (15 * x\<^sup>2 / (2 * (cos \<theta>)\<^sup>2 * (x * tan \<theta> - y)))"
  have c': "cos \<theta> \<noteq> 0" using c by (simp add: \<theta>_def)
  note unfold = calculateShotVelocity_cases [OF \<theta>_def dx_def dz_def y_def x_def v_def]
  have A: "calculateShotVelocity s t angleDeg = NoSolution \<longleftrightarrow> x * tan \<theta> - y \<le> 0"
    unfolding unfold using c' by simp
  have B: "calculateShotVelocity s t angleDeg \<noteq> NotFinite"
    unfolding unfold using c' by simp
  have C: "calculateShotVelocity s t angleDeg =
            Velocity (vec (dx / x * (v * cos \<theta>)) (v * sin \<theta>) (dz / x * (v * cos \<theta>)))
          \<and> (dx / x)\<^sup>2 + (dz / x)\<^sup>2 = 1"
    if "0 < x * tan \<theta> - y" "0 < x"
  proof -
    have "normalize3 (vec dx 0 dz) = vec (dx / x) 0 (dz / x)"
      using that(2) unfolding x_def by (rule normalize3_XZ_pos)
    moreover have "(dx / x)\<^sup>2 + (dz / x)\<^sup>2 = 1"
      using that(2) unfolding x_def by (rule unit_XZ)
    ultimately show ?thesis
      unfolding unfold using that(1) c' by simp
  qed
  have D: "v = 0 \<and> calculateShotVelocity s t angleDeg = Velocity (vec 0 0 0)"
    if "0 < x * tan \<theta> - y" "x = 0"
  proof -
    have "normalize3 (vec dx 0 dz) = vec 0 0 0"
      using that(2) unfolding x_def by (rule normalize3_XZ_zero)
    moreover have "v = 0" using that(2) by (simp add: v_def)
    ultimately show ?thesis
      unfolding unfold using that(1) c' by simp
  qed
  show ?thesis
    using A B C D
    unfolding Let_def \<theta>_def [symmetric] dx_def [symmetric] dz_def [symmetric]
      x_def [symmetric] y_def [symmetric] v_def [symmetric]
    by blast
qed

lemma deg45: "45 * (pi / 180) = pi / 4" by simp

lemma sqrt_450_2: "sqrt 450 * sqrt 2 = 30"
proof -
  have "sqrt 450 * sqrt 2 = sqrt 900" by (simp add: real_sqrt_mult [symmetric])
  also have "\<dots> = 30" using real_sqrt_abs [of 30] by simp
  finally show ?thesis .
qed

theorem calculateShotVelocity_solution_witness:
  "cos (45 * (pi / 180)) \<noteq> 0
   \<and> calculateShotVelocity (vec 0 0 0) (vec 30 0 0) 45 = Velocity (vec 15 15 0)
   \<and> calculateShotVelocity (vec 0 0 0) (vec 0 50 1) 45 = NoSolution
   \<and> calculateShotVelocity (vec 0 0 0) (vec 0 (- 5) 0) 45 = Velocity (vec 0 0 0)"
proof -
  have c: "cos (45 * (pi / 180)) \<noteq> 0" unfolding deg45 by (simp add: cos_45)
  have "calculateShotVelocity (vec 0 0 0) (vec 30 0 0) 45 =
          Velocity (vec (30 / 30 * (sqrt 450 * cos (pi / 4))) (sqrt 450 * sin (pi / 4))
                        (0 / 30 * (sqrt 450 * cos (pi / 4))))"
    using calculateShotVelocity_solution [OF c, of "vec 30 0 0" "vec 0 0 0"]
    unfolding deg45 by (simp add: Let_def tan_45 cos_45 power_divide)
  then have hit: "calculateShotVelocity (vec 0 0 0) (vec 30 0 0) 45 = Velocity (vec 15 15 0)"
    by (simp add: cos_45 sin_45 sqrt_450_2)
  have miss: "calculateShotVelocity (vec 0 0 0) (vec 0 50 1) 45 = NoSolution"
    using calculateShotVelocity_solution [OF c, of "vec 0 50 1" "vec 0 0 0"]
    unfolding deg45 by (simp add: Let_def tan_45)
  have drop: "calculateShotVelocity (vec 0 0 0) (vec 0 (- 5) 0) 45 = Velocity (vec 0 0 0)"
    using calculateShotVelocity_solution [OF c, of "vec 0 (- 5) 0" "vec 0 0 0"]
    unfolding deg45 by (simp add: Let_def tan_45)
  show ?thesis using c hit miss drop by simp
qed


section \<open>The solver's round trip through the stepper\<close>












section \<open>The ball's bounce\<close>

lemma leastAxis_cases:
  "fst (leastAxis oX oY oZ) =
     (if oZ < oX \<and> oZ < oY then AxisZ else if oX < oY then AxisX else AxisY)"
  by (simp add: leastAxis_def)

lemma leastAxis_least:
  "overlapOn (fst (leastAxis (overlapX a b) (overlapY a b) (overlapZ a b))) a b \<le> overlapX a b"
  "overlapOn (fst (leastAxis (overlapX a b) (overlapY a b) (overlapZ a b))) a b \<le> overlapY a b"
  "overlapOn (fst (leastAxis (overlapX a b) (overlapY a b) (overlapZ a b))) a b \<le> overlapZ a b"
  by (auto simp add: leastAxis_cases overlapOn_def)

lemma bounce_miss: "\<not> intersectsBox bb c \<Longrightarrow> bounce bb rest fric dt c pv = pv"
  by (simp add: bounce_def split: prod.splits)

lemma sgn_sq: "(s::real) = sgn a \<Longrightarrow> v * s < 0 \<Longrightarrow> s * s = 1"
  by (auto simp add: sgn_real_def split: if_splits)

lemma bounce_hit:
  assumes hit: "intersectsBox bb c"
    and ax: "ax = fst (leastAxis (overlapX bb c) (overlapY bb c) (overlapZ bb c))"
    and s: "s = sgn (coord ax pos - coord ax (getCenter c))"
    and r: "bounce bb rest fric dt c (pos, vel) = (pos', vel')"
  shows "pos' = setCoord ax pos (coord ax pos + overlapOn ax bb c * s)"
    and "\<not> coord ax vel * s < 0 \<Longrightarrow> vel' = vel"
    and "coord ax vel * s < 0 \<Longrightarrow> coord ax vel' = - rest * coord ax vel"
    and "coord ax vel * s < 0 \<Longrightarrow> ax \<noteq> AxisY \<Longrightarrow>
           vel' = multiplyScalar (setCoord ax vel (- coord ax vel)) rest"
proof -
  show "pos' = setCoord ax pos (coord ax pos + overlapOn ax bb c * s)"
    using hit r unfolding ax s
    by (cases "fst (leastAxis (overlapX bb c) (overlapY bb c) (overlapZ bb c))")
       (auto simp add: bounce_def Let_def coord_def setCoord_def overlapOn_def split: if_splits)
  show "vel' = vel" if "\<not> coord ax vel * s < 0"
    using hit r that unfolding ax s
    by (cases "fst (leastAxis (overlapX bb c) (overlapY bb c) (overlapZ bb c))")
       (auto simp add: bounce_def Let_def coord_def dot_def split: if_splits)
  show "coord ax vel' = - rest * coord ax vel" if d: "coord ax vel * s < 0"
  proof -
    have sq: "s * s = 1" using s d by (rule sgn_sq)
    show ?thesis
      using hit r d sq unfolding ax s
      by (cases "fst (leastAxis (overlapX bb c) (overlapY bb c) (overlapZ bb c))")
         (auto simp add: bounce_def Let_def coord_def dot_def multiplyScalar_def sub_def
           algebra_simps split: if_splits)
  qed
  show "vel' = multiplyScalar (setCoord ax vel (- coord ax vel)) rest"
    if d: "coord ax vel * s < 0" and ny: "ax \<noteq> AxisY"
  proof -
    have sq: "s * s = 1" using s d by (rule sgn_sq)
    show ?thesis
      using hit r d sq ny unfolding ax s
      by (cases "fst (leastAxis (overlapX bb c) (overlapY bb c) (overlapZ bb c))")
         (auto simp add: bounce_def Let_def coord_def setCoord_def dot_def multiplyScalar_def
           sub_def algebra_simps split: if_splits)
  qed
qed

text \<open>
  C3, as amended. Whenever the ball's box intersects a collider's box, the bounce takes
  as contact axis an axis of least overlap among x, y, z, and moves the candidate
  position along it by the overlap times the sign of (ball centre - collider centre).
  The velocity is touched only when it points against that direction: its component on
  the axis is then reversed and scaled by the restitution, and for a contact on x or z
  the other two components are scaled by the restitution and nothing else.
\<close>

theorem bounce_resolution:
  "intersectsBox bb c \<Longrightarrow>
   (let ax = fst (leastAxis (overlapX bb c) (overlapY bb c) (overlapZ bb c));
        ov = overlapOn ax bb c;
        s = sgn (coord ax pos - coord ax (getCenter c));
        (pos', vel') = bounce bb rest fric dt c (pos, vel)
    in ov \<le> overlapX bb c \<and> ov \<le> overlapY bb c \<and> ov \<le> overlapZ bb c
     \<and> pos' = setCoord ax pos (coord ax pos + ov * s)
     \<and> (\<not> coord ax vel * s < 0 \<longrightarrow> vel' = vel)
     \<and> (coord ax vel * s < 0 \<longrightarrow>
          coord ax vel' = - rest * coord ax vel
          \<and> (ax \<noteq> AxisY \<longrightarrow> vel' = multiplyScalar (setCoord ax vel (- coord ax vel)) rest)))"
proof -
  assume hit: "intersectsBox bb c"
  obtain pos' vel' where r: "bounce bb rest fric dt c (pos, vel) = (pos', vel')"
    by (cases "bounce bb rest fric dt c (pos, vel)")
  show ?thesis
    unfolding Let_def r prod.case
    using bounce_hit [OF hit refl refl r] leastAxis_least [of bb c]
    by blast
qed

theorem bounce_resolution_witness:
  "intersectsBox (ballBoxAt (vec 0 (1 / 10) 0) (3 / 20)) floorBox
   \<and> fst (leastAxis (overlapX (ballBoxAt (vec 0 (1 / 10) 0) (3 / 20)) floorBox)
                    (overlapY (ballBoxAt (vec 0 (1 / 10) 0) (3 / 20)) floorBox)
                    (overlapZ (ballBoxAt (vec 0 (1 / 10) 0) (3 / 20)) floorBox)) = AxisY
   \<and> fst (bounce (ballBoxAt (vec 0 (1 / 10) 0) (3 / 20)) (4 / 5) 2 (1 / 100) floorBox
             (vec 0 (1 / 10) 0, vec 1 (- 1) 0)) = vec 0 (3 / 20) 0
   \<and> cy (snd (bounce (ballBoxAt (vec 0 (1 / 10) 0) (3 / 20)) (4 / 5) 2 (1 / 100) floorBox
             (vec 0 (1 / 10) 0, vec 1 (- 1) 0))) = 4 / 5"
proof -
  let ?bb = "ballBoxAt (vec 0 (1 / 10) 0) (3 / 20)"
  have hit: "intersectsBox ?bb floorBox"
    by (simp add: intersectsBox_def ballBoxAt_def floorBox_def)
  have ov: "overlapX ?bb floorBox = 3 / 10" "overlapY ?bb floorBox = 1 / 20"
    "overlapZ ?bb floorBox = 3 / 10"
    by (simp_all add: overlapX_def overlapY_def overlapZ_def ballBoxAt_def floorBox_def)
  have ax: "fst (leastAxis (overlapX ?bb floorBox) (overlapY ?bb floorBox)
                  (overlapZ ?bb floorBox)) = AxisY"
    by (simp add: ov leastAxis_cases)
  have ctr: "getCenter floorBox = vec 0 (- 1 / 2) 0"
    by (simp add: getCenter_def isEmpty_def floorBox_def multiplyScalar_def)
  show ?thesis
    using bounce_resolution [OF hit, of "vec 0 (1 / 10) 0" "8 / 10" 2 "1 / 100" "vec 1 (- 1) 0"]
      hit ax
    by (simp add: ax ov ctr Let_def coord_def setCoord_def overlapOn_def split: prod.splits)
qed

text \<open>
  C3 as stated fails: a ball past the middle of the right wall and moving outwards is
  pushed out along x, and its velocity is left as it is, where the reflection scaled by
  the restitution would be \<open>(-16, 0, 0)\<close>.
\<close>

theorem bounce_resolution_counterexample:
  "intersectsBox (ballBoxAt (vec (109 / 10) (7 / 5) 0) (3 / 20)) rightWall
   \<and> bounce (ballBoxAt (vec (109 / 10) (7 / 5) 0) (3 / 20)) (4 / 5) 2 (1 / 100) rightWall
        (vec (109 / 10) (7 / 5) 0, vec 20 0 0)
      = (vec (223 / 20) (7 / 5) 0, vec 20 0 0)
   \<and> multiplyScalar (sub (vec 20 0 0)
        (multiplyScalar (vec 1 0 0) (2 * dot (vec 20 0 0) (vec 1 0 0)))) (4 / 5)
      = vec (- 16) 0 0"
  by (simp add: intersectsBox_def ballBoxAt_def rightWall_def bounce_def Let_def leastAxis_def
      overlapX_def overlapY_def overlapZ_def getCenter_def isEmpty_def multiplyScalar_def
      dot_def sub_def)

text \<open>The friction test reads the scaled normal.\<close>

lemma bounce_friction_threshold:
  assumes hit: "intersectsBox bb c"
    and ax: "fst (leastAxis (overlapX bb c) (overlapY bb c) (overlapZ bb c)) = AxisY"
    and d: "cy vel * sgn (cy pos - cy (getCenter c)) < 0"
  shows "snd (bounce bb rest fric dt c (pos, vel)) =
           (if 1 / 4 < \<bar>cy vel\<bar>
            then vec (rest * cx vel - rest * cx vel * fric * dt) (- rest * cy vel)
                     (rest * cz vel - rest * cz vel * fric * dt)
            else vec (rest * cx vel) (- rest * cy vel) (rest * cz vel))"
proof -
  have sq: "sgn (cy pos - cy (getCenter c)) * sgn (cy pos - cy (getCenter c)) = 1"
    using refl d by (rule sgn_sq)
  then have a: "\<bar>sgn (cy pos - cy (getCenter c))\<bar> = 1"
    by (simp add: sgn_real_def split: if_splits)
  show ?thesis
    using hit ax d sq a
    by (auto simp add: bounce_def Let_def dot_def multiplyScalar_def sub_def abs_mult
        algebra_simps)
qed


section \<open>The player's hard stop\<close>

lemma playerBoxAt_upd [simp]:
  "playerBoxAt (q\<lparr>pvelocity := v\<rparr>) = playerBoxAt q"
  "playerBoxAt (q\<lparr>onGround := g\<rparr>) = playerBoxAt q"
  "playerBoxAt (q\<lparr>stamina := st\<rparr>) = playerBoxAt q"
  by (simp_all add: playerBoxAt_def)

lemma vec_cy_zero: "cy v = 0 \<Longrightarrow> vec (cx v) 0 (cz v) = (v::Vector3)"
  using vec_eta [of v] by simp

lemma hardStop_miss:
  "\<not> intersectsBox pb c \<Longrightarrow> hardStop ax c (p, pb) = (p, pb)"
  by (simp add: hardStop_def)

lemma hardStop_skip:
  "\<bar>overlapX pb c\<bar> < 1 / 1000 \<or> \<bar>overlapY pb c\<bar> < 1 / 1000 \<or> \<bar>overlapZ pb c\<bar> < 1 / 1000
   \<Longrightarrow> hardStop ax c (p, pb) = (p, pb)"
  by (simp add: hardStop_def Let_def)

lemma hardStop_eq:
  "hardStop ax c (q, playerBoxAt q) =
     (let pb = playerBoxAt q; pos = camera_position q; vel = pvelocity q;
          ov = overlapOn ax pb c;
          q' = (if intersectsBox pb c \<and> 1 / 1000 \<le> \<bar>overlapX pb c\<bar>
                   \<and> 1 / 1000 \<le> \<bar>overlapY pb c\<bar> \<and> 1 / 1000 \<le> \<bar>overlapZ pb c\<bar> \<and> 0 < ov
                then q\<lparr>camera_position := setCoord ax pos (coord ax pos + ov * playerPush ax c q),
                       pvelocity := setCoord ax vel 0,
                       onGround := (onGround q \<or> (ax = AxisY \<and> cy vel \<le> 0))\<rparr>
                else q)
      in (q', playerBoxAt q'))"
proof (cases "intersectsBox (playerBoxAt q) c \<and> 1 / 1000 \<le> \<bar>overlapX (playerBoxAt q) c\<bar>
                \<and> 1 / 1000 \<le> \<bar>overlapY (playerBoxAt q) c\<bar> \<and> 1 / 1000 \<le> \<bar>overlapZ (playerBoxAt q) c\<bar>")
  case False
  then show ?thesis
    by (auto simp add: hardStop_miss hardStop_skip Let_def not_le)
next
  case True
  then have ns: "\<not> (\<bar>overlapX (playerBoxAt q) c\<bar> < 1 / 1000 \<or> \<bar>overlapY (playerBoxAt q) c\<bar> < 1 / 1000
                     \<or> \<bar>overlapZ (playerBoxAt q) c\<bar> < 1 / 1000)"
    by auto
  have hit: "intersectsBox (playerBoxAt q) c" using True by simp
  show ?thesis
  proof (cases ax)
    case AxisX
    show ?thesis
      unfolding hardStop_def AxisX using hit ns True
      by (simp add: Let_def overlapOn_def coord_def setCoord_def playerPush_def)
  next
    case AxisY
    show ?thesis
      unfolding hardStop_def AxisY using hit ns True
      by (auto simp add: Let_def overlapOn_def coord_def setCoord_def playerPush_def vec_cy_zero)
  next
    case AxisZ
    show ?thesis
      unfolding hardStop_def AxisZ using hit ns True
      by (simp add: Let_def overlapOn_def coord_def setCoord_def playerPush_def)
  qed
qed

lemma hardStop_box:
  "snd (hardStop ax c (q, playerBoxAt q)) = playerBoxAt (fst (hardStop ax c (q, playerBoxAt q)))"
  by (simp add: hardStop_eq Let_def)

lemma fold_hardStop:
  "fold (hardStop ax) cs (q, playerBoxAt q) =
     (fold (\<lambda>c q. fst (hardStop ax c (q, playerBoxAt q))) cs q,
      playerBoxAt (fold (\<lambda>c q. fst (hardStop ax c (q, playerBoxAt q))) cs q))"
proof (induction cs arbitrary: q)
  case Nil
  show ?case by simp
next
  case (Cons c cs)
  define q1 where "q1 = fst (hardStop ax c (q, playerBoxAt q))"
  have e: "hardStop ax c (q, playerBoxAt q) = (q1, playerBoxAt q1)"
    using hardStop_box [of ax c q] by (simp add: prod_eq_iff q1_def)
  show ?case by (simp add: e Cons.IH)
qed

lemma resolveCollisions_fold:
  "resolveCollisions cs ax q = fold (\<lambda>c q. fst (hardStop ax c (q, playerBoxAt q))) cs q"
  by (simp add: resolveCollisions_def fold_hardStop)


section \<open>Touching colliders\<close>

lemma playerBoxAt_sel:
  "bmin (playerBoxAt p) = vec (cx (camera_position p) - width p / 2)
     (cy (camera_position p) - height p) (cz (camera_position p) - width p / 2)"
  "bmax (playerBoxAt p) = vec (cx (camera_position p) + width p / 2)
     (cy (camera_position p)) (cz (camera_position p) + width p / 2)"
  by (simp_all add: playerBoxAt_def Let_def)


lemma overlaps_nonneg:
  assumes "intersectsBox a c" and "\<not> isEmpty a" and "\<not> isEmpty c"
  shows "0 \<le> overlapX a c" and "0 \<le> overlapY a c" and "0 \<le> overlapZ a c"
  using assms
  by (simp_all add: intersectsBox_def isEmpty_def overlapX_def overlapY_def overlapZ_def not_less)

lemma playerBox_nonempty:
  "0 \<le> width p \<Longrightarrow> 0 \<le> height p \<Longrightarrow> \<not> isEmpty (playerBoxAt p)"
  by (simp add: isEmpty_def playerBoxAt_sel not_less)

text \<open>
  C6, as amended. In the player's hard-stop resolution an intersecting collider whose
  overlap with the player's box is below 0.001 on any axis is skipped: neither the
  player nor the player's box changes. (Boxes are the non-empty boxes three.js
  computes; the player's width and height are not negative.)
\<close>

theorem hardStop_skips_touching:
  "intersectsBox (playerBoxAt p) c \<Longrightarrow> \<not> isEmpty c \<Longrightarrow> 0 \<le> width p \<Longrightarrow> 0 \<le> height p \<Longrightarrow>
   overlapX (playerBoxAt p) c < 1 / 1000 \<or> overlapY (playerBoxAt p) c < 1 / 1000
     \<or> overlapZ (playerBoxAt p) c < 1 / 1000 \<Longrightarrow>
   hardStop ax c (p, playerBoxAt p) = (p, playerBoxAt p) \<and> resolveCollisions [c] ax p = p"
proof -
  assume hit: "intersectsBox (playerBoxAt p) c" and c: "\<not> isEmpty c"
    and w: "0 \<le> width p" and h: "0 \<le> height p"
    and small: "overlapX (playerBoxAt p) c < 1 / 1000 \<or> overlapY (playerBoxAt p) c < 1 / 1000
                \<or> overlapZ (playerBoxAt p) c < 1 / 1000"
  note nn = overlaps_nonneg [OF hit playerBox_nonempty [OF w h] c]
  have "\<bar>overlapX (playerBoxAt p) c\<bar> < 1 / 1000 \<or> \<bar>overlapY (playerBoxAt p) c\<bar> < 1 / 1000
        \<or> \<bar>overlapZ (playerBoxAt p) c\<bar> < 1 / 1000"
    using small nn by auto
  then have "hardStop ax c (p, playerBoxAt p) = (p, playerBoxAt p)"
    by (rule hardStop_skip)
  then show ?thesis by (simp add: resolveCollisions_def)
qed

theorem hardStop_skips_touching_witness:
  "intersectsBox (playerBoxAt (newPlayer\<lparr>camera_position := vec 0 (8 / 5) 5\<rparr>)) floorBox
   \<and> \<not> isEmpty floorBox
   \<and> overlapY (playerBoxAt (newPlayer\<lparr>camera_position := vec 0 (8 / 5) 5\<rparr>)) floorBox = 0
   \<and> resolveCollisions [floorBox] AxisX (newPlayer\<lparr>camera_position := vec 0 (8 / 5) 5\<rparr>)
       = newPlayer\<lparr>camera_position := vec 0 (8 / 5) 5\<rparr>"
proof -
  let ?p = "newPlayer\<lparr>camera_position := vec 0 (8 / 5) 5\<rparr>"
  have hit: "intersectsBox (playerBoxAt ?p) floorBox"
    by (simp add: intersectsBox_def playerBoxAt_sel newPlayer_def floorBox_def)
  have ne: "\<not> isEmpty floorBox" by (simp add: isEmpty_def floorBox_def)
  have oy: "overlapY (playerBoxAt ?p) floorBox = 0"
    by (simp add: overlapY_def playerBoxAt_sel newPlayer_def floorBox_def)
  have w: "0 \<le> width ?p" and h: "0 \<le> height ?p" by (simp_all add: newPlayer_def)
  have "resolveCollisions [floorBox] AxisX ?p = ?p"
    using hardStop_skips_touching [OF hit ne w h, of AxisX] oy by simp
  then show ?thesis using hit ne oy by simp
qed

text \<open>
  C6 as stated fails for the ball: with an overlap of 0.0005 on y against the floor the
  bounce moves the ball up and reflects its velocity.
\<close>

theorem bounce_no_threshold_counterexample:
  "intersectsBox (ballBoxAt (vec 0 (299 / 2000) 0) (3 / 20)) floorBox
   \<and> overlapY (ballBoxAt (vec 0 (299 / 2000) 0) (3 / 20)) floorBox = 1 / 2000
   \<and> bounce (ballBoxAt (vec 0 (299 / 2000) 0) (3 / 20)) (4 / 5) 2 (1 / 100) floorBox
        (vec 0 (299 / 2000) 0, vec 1 (- 1) 0)
      = (vec 0 (3 / 20) 0, vec (98 / 125) (4 / 5) 0)"
  by (simp add: intersectsBox_def ballBoxAt_def floorBox_def bounce_def Let_def leastAxis_def
      overlapX_def overlapY_def overlapZ_def getCenter_def isEmpty_def multiplyScalar_def
      dot_def sub_def)


section \<open>The order of the player's axes\<close>

lemma coord_setCoord_other: "a \<noteq> ax \<Longrightarrow> coord a (setCoord ax v x) = coord a v"
  by (cases a; cases ax) (simp_all add: coord_def setCoord_def)

lemma hardStop_frame:
  "a \<noteq> ax \<Longrightarrow>
   coord a (camera_position (fst (hardStop ax c (q, playerBoxAt q)))) = coord a (camera_position q)
   \<and> coord a (pvelocity (fst (hardStop ax c (q, playerBoxAt q)))) = coord a (pvelocity q)"
  by (simp add: hardStop_eq Let_def coord_setCoord_other)

lemma hardStop_onGround:
  "ax \<noteq> AxisY \<Longrightarrow> onGround (fst (hardStop ax c (q, playerBoxAt q))) = onGround q"
  by (simp add: hardStop_eq Let_def)

lemma resolveCollisions_frame:
  "a \<noteq> ax \<Longrightarrow>
   coord a (camera_position (resolveCollisions cs ax q)) = coord a (camera_position q)
   \<and> coord a (pvelocity (resolveCollisions cs ax q)) = coord a (pvelocity q)"
  unfolding resolveCollisions_fold
  by (induction cs arbitrary: q) (simp_all add: hardStop_frame)

lemma resolveCollisions_onGround:
  "ax \<noteq> AxisY \<Longrightarrow> onGround (resolveCollisions cs ax q) = onGround q"
  unfolding resolveCollisions_fold
  by (induction cs arbitrary: q) (simp_all add: hardStop_onGround)

lemma moveAxis_eq:
  "moveAxis ax delta q =
     q\<lparr>camera_position := setCoord ax (camera_position q)
          (coord ax (camera_position q) + coord ax (pvelocity q) * delta)\<rparr>"
  by (cases ax) (simp_all add: moveAxis_def Let_def coord_def setCoord_def)

text \<open>
  C4, as amended. In a frame with pointer lock, \<^verbatim>\<open>update\<close> moves and resolves one
  axis at a time, in the order x, z, y. Each move adds velocity times delta on its axis.
  A resolution pass handles the colliders one after the other, each against the box of
  the player's current position; a collider that is hit, not skipped and has a positive
  overlap on the pass's axis adds the signed overlap to the position on that axis, zeroes
  the velocity on that axis, and on y sets \<open>onGround\<close> unless the player is rising
  (so whenever it was descending). A pass changes position and velocity on its own axis
  only, and \<open>onGround\<close> only on y.
\<close>

theorem playerUpdate_axis_order:
  "locked \<Longrightarrow>
   playerUpdate locked delta cs p =
     fallLimit
      (resolveCollisions cs AxisY (moveAxis AxisY delta
        (resolveCollisions cs AxisZ (moveAxis AxisZ delta
          (resolveCollisions cs AxisX (moveAxis AxisX delta
            ((steer delta p)\<lparr>onGround := False\<rparr>)))))))
   \<and> moveAxis ax delta q =
       q\<lparr>camera_position := setCoord ax (camera_position q)
            (coord ax (camera_position q) + coord ax (pvelocity q) * delta)\<rparr>
   \<and> resolveCollisions cs ax q = fold (\<lambda>c q. fst (hardStop ax c (q, playerBoxAt q))) cs q
   \<and> fst (hardStop ax c (q, playerBoxAt q)) =
       (let pb = playerBoxAt q; pos = camera_position q; vel = pvelocity q;
            ov = overlapOn ax pb c
        in if intersectsBox pb c \<and> 1 / 1000 \<le> \<bar>overlapX pb c\<bar>
              \<and> 1 / 1000 \<le> \<bar>overlapY pb c\<bar> \<and> 1 / 1000 \<le> \<bar>overlapZ pb c\<bar> \<and> 0 < ov
           then q\<lparr>camera_position := setCoord ax pos (coord ax pos + ov * playerPush ax c q),
                  pvelocity := setCoord ax vel 0,
                  onGround := (onGround q \<or> (ax = AxisY \<and> cy vel \<le> 0))\<rparr>
           else q)
   \<and> (\<forall>a. a \<noteq> ax \<longrightarrow>
          coord a (camera_position (resolveCollisions cs ax q)) = coord a (camera_position q)
          \<and> coord a (pvelocity (resolveCollisions cs ax q)) = coord a (pvelocity q))
   \<and> (ax \<noteq> AxisY \<longrightarrow> onGround (resolveCollisions cs ax q) = onGround q)"
proof -
  assume locked
  then have order: "playerUpdate locked delta cs p =
     fallLimit
      (resolveCollisions cs AxisY (moveAxis AxisY delta
        (resolveCollisions cs AxisZ (moveAxis AxisZ delta
          (resolveCollisions cs AxisX (moveAxis AxisX delta
            ((steer delta p)\<lparr>onGround := False\<rparr>)))))))"
    by (simp add: playerUpdate_def Let_def)
  have one: "fst (hardStop ax c (q, playerBoxAt q)) =
       (let pb = playerBoxAt q; pos = camera_position q; vel = pvelocity q;
            ov = overlapOn ax pb c
        in if intersectsBox pb c \<and> 1 / 1000 \<le> \<bar>overlapX pb c\<bar>
              \<and> 1 / 1000 \<le> \<bar>overlapY pb c\<bar> \<and> 1 / 1000 \<le> \<bar>overlapZ pb c\<bar> \<and> 0 < ov
           then q\<lparr>camera_position := setCoord ax pos (coord ax pos + ov * playerPush ax c q),
                  pvelocity := setCoord ax vel 0,
                  onGround := (onGround q \<or> (ax = AxisY \<and> cy vel \<le> 0))\<rparr>
           else q)"
    by (simp add: hardStop_eq Let_def)
  show ?thesis
    using order one moveAxis_eq [of ax delta q] resolveCollisions_fold [of cs ax q]
      resolveCollisions_frame [of _ ax cs q] resolveCollisions_onGround [of ax cs q]
    by blast
qed

lemma steer_idle:
  "steer (1 / 10) (newPlayer\<lparr>camera_position := vec 0 (17 / 10) 5\<rparr>) =
     newPlayer\<lparr>camera_position := vec 0 (17 / 10) 5, pvelocity := vec 0 (- 3) 0\<rparr>"
  by (simp add: steer_def applyDamping_def staminaStep_def accelerate_def inputDirection_def
      targetSpeed_def moving_def lengthSq_def newPlayer_def Let_def)

lemma resolve_single:
  "resolveCollisions [c] ax q = fst (hardStop ax c (q, playerBoxAt q))"
  by (simp add: resolveCollisions_def)

lemma resolve_single_miss:
  "\<not> intersectsBox (playerBoxAt q) c \<Longrightarrow> resolveCollisions [c] ax q = q"
  by (simp add: resolve_single hardStop_miss)

lemma falling_frame:
  assumes q0: "q0 = newPlayer\<lparr>camera_position := vec 0 (17 / 10) 5, pvelocity := vec 0 (- 3) 0\<rparr>"
  shows "fallLimit
      (resolveCollisions [floorBox] AxisY (moveAxis AxisY (1 / 10)
        (resolveCollisions [floorBox] AxisZ (moveAxis AxisZ (1 / 10)
          (resolveCollisions [floorBox] AxisX (moveAxis AxisX (1 / 10)
            (q0\<lparr>onGround := False\<rparr>)))))))
     = newPlayer\<lparr>camera_position := vec 0 (8 / 5) 5, onGround := True\<rparr>"
proof -
  have g: "q0\<lparr>onGround := False\<rparr> = q0" by (simp add: q0 newPlayer_def)
  have mx: "moveAxis AxisX (1 / 10) q0 = q0" by (simp add: q0 moveAxis_def Let_def)
  have mz: "moveAxis AxisZ (1 / 10) q0 = q0" by (simp add: q0 moveAxis_def Let_def)
  have miss: "\<not> intersectsBox (playerBoxAt q0) floorBox"
    by (simp add: q0 intersectsBox_def playerBoxAt_sel floorBox_def newPlayer_def)
  define q1 where
    "q1 = newPlayer\<lparr>camera_position := vec 0 (7 / 5) 5, pvelocity := vec 0 (- 3) 0\<rparr>"
  have my: "moveAxis AxisY (1 / 10) q0 = q1" by (simp add: q0 q1_def moveAxis_def Let_def)
  have sel: "camera_position q1 = vec 0 (7 / 5) 5" "pvelocity q1 = vec 0 (- 3) 0"
    "onGround q1 = False"
    by (simp_all add: q1_def newPlayer_def)
  have box: "bmin (playerBoxAt q1) = vec (- 3 / 10) (- 1 / 5) (47 / 10)"
    "bmax (playerBoxAt q1) = vec (3 / 10) (7 / 5) (53 / 10)"
    by (simp_all add: playerBoxAt_sel q1_def newPlayer_def)
  have hit: "intersectsBox (playerBoxAt q1) floorBox"
    by (simp add: intersectsBox_def box floorBox_def)
  have ov: "overlapX (playerBoxAt q1) floorBox = 3 / 5" "overlapY (playerBoxAt q1) floorBox = 1 / 5"
    "overlapZ (playerBoxAt q1) floorBox = 3 / 5"
    by (simp_all add: overlapX_def overlapY_def overlapZ_def box floorBox_def)
  have push: "playerPush AxisY floorBox q1 = 1" by (simp add: playerPush_def sel)
  have "resolveCollisions [floorBox] AxisY q1 =
          q1\<lparr>camera_position := vec 0 (8 / 5) 5, pvelocity := vec 0 0 0, onGround := True\<rparr>"
    by (simp add: resolve_single hardStop_eq Let_def hit ov overlapOn_def push sel coord_def
        setCoord_def)
  also have "\<dots> = newPlayer\<lparr>camera_position := vec 0 (8 / 5) 5, onGround := True\<rparr>"
    by (simp add: q1_def newPlayer_def)
  finally have ry: "resolveCollisions [floorBox] AxisY q1 =
      newPlayer\<lparr>camera_position := vec 0 (8 / 5) 5, onGround := True\<rparr>" .
  have fl: "fallLimit (newPlayer\<lparr>camera_position := vec 0 (8 / 5) 5, onGround := True\<rparr>) =
      newPlayer\<lparr>camera_position := vec 0 (8 / 5) 5, onGround := True\<rparr>"
    by (simp add: fallLimit_def)
  show ?thesis
    by (simp only: g mx mz my resolve_single_miss [OF miss] ry fl)
qed

theorem playerUpdate_axis_order_witness:
  "playerUpdate True (1 / 10) [floorBox] (newPlayer\<lparr>camera_position := vec 0 (17 / 10) 5\<rparr>)
     = newPlayer\<lparr>camera_position := vec 0 (8 / 5) 5, onGround := True\<rparr>
   \<and> AxisX \<noteq> AxisY
   \<and> onGround (resolveCollisions [floorBox] AxisX newPlayer) = onGround newPlayer"
proof -
  let ?p = "newPlayer\<lparr>camera_position := vec 0 (17 / 10) 5\<rparr>"
  have order: "playerUpdate True (1 / 10) [floorBox] ?p =
     fallLimit
      (resolveCollisions [floorBox] AxisY (moveAxis AxisY (1 / 10)
        (resolveCollisions [floorBox] AxisZ (moveAxis AxisZ (1 / 10)
          (resolveCollisions [floorBox] AxisX (moveAxis AxisX (1 / 10)
            ((steer (1 / 10) ?p)\<lparr>onGround := False\<rparr>)))))))"
    by (rule playerUpdate_axis_order [of True, OF TrueI, THEN conjunct1])
  have frame: "onGround (resolveCollisions [floorBox] AxisX newPlayer) = onGround newPlayer"
    by (rule playerUpdate_axis_order [of True, OF TrueI, THEN conjunct2, THEN conjunct2,
          THEN conjunct2, THEN conjunct2, THEN conjunct2, THEN mp]) simp
  have "playerUpdate True (1 / 10) [floorBox] ?p =
          newPlayer\<lparr>camera_position := vec 0 (8 / 5) 5, onGround := True\<rparr>"
    unfolding order steer_idle by (rule falling_frame) simp
  then show ?thesis using frame by simp
qed

text \<open>
  C4 as stated fails in a frame without pointer lock: \<^verbatim>\<open>update\<close> clears the velocity
  and returns, so a falling player is not moved and nothing is resolved.
\<close>

theorem playerUpdate_axis_order_counterexample:
  "playerUpdate False (1 / 10) [floorBox]
     (newPlayer\<lparr>camera_position := vec 0 (17 / 10) 5, pvelocity := vec 0 (- 3) 0\<rparr>)
   = newPlayer\<lparr>camera_position := vec 0 (17 / 10) 5, pvelocity := vec 0 0 0\<rparr>"
  by (simp add: playerUpdate_def)


section \<open>No penetration\<close>










section \<open>Stamina\<close>














end
